theory Spec2Isabelle
  imports Complex_Main
begin

section \<open>The Dashboard component of CFO-Helper\<close>

text \<open>
  The theory embeds the computational part of \<^verbatim>\<open>src/components/Dashboard.tsx\<close>:
  the projection computed by \<^verbatim>\<open>runSimulation\<close>, the advisory snapshot of
  \<^verbatim>\<open>getFinancialContext\<close>, the periodic perturbation of \<^verbatim>\<open>mockData\<close>, the two
  usage counters, the payload handed to \<^verbatim>\<open>saveFinancialData\<close> and the effect that
  loads stored financial data into the inputs.

  Modelling conventions.
  \<^item> A JavaScript \<^verbatim>\<open>number\<close> is a \<^typ>\<open>real\<close>: arithmetic is exact, and rounding of
    IEEE doubles is not modelled. \<^verbatim>\<open>NaN\<close> and the infinities are no reals; the one
    place where the source writes \<^verbatim>\<open>Infinity\<close> itself (the runway) has a constructor
    of its own.
  \<^item> The one place where a rounding of less than an ulp can change a whole number is
    \<^verbatim>\<open>Math.floor\<close> of the quotient of the runway. The line of the runway therefore
    takes the rounding of that quotient as a parameter; the projection is evaluated
    with the exact quotient, as the rest of the arithmetic is.
  \<^item> A quotient whose divisor is \<open>0\<close> is \<^verbatim>\<open>NaN\<close> or an infinity in JavaScript, so it
    has no value in this model: \<open>js_divide\<close> returns the failure \<open>NonFinite\<close> there.
    Reading a property of \<^verbatim>\<open>undefined\<close> throws a \<^verbatim>\<open>TypeError\<close>.
  \<^item> React state is passed explicitly: a handler takes the state of the component
    and returns the next one.
\<close>

subsection \<open>Data\<close>

datatype js_failure = TypeError | NonFinite

definition js_divide :: "real \<Rightarrow> real \<Rightarrow> js_failure + real" where
  "js_divide a b = (if b = 0 then Inl NonFinite else Inr (a / b))"

definition and_then :: "'e + 'a \<Rightarrow> ('a \<Rightarrow> 'e + 'b) \<Rightarrow> 'e + 'b" where
  "and_then r f = (case r of Inl e \<Rightarrow> Inl e | Inr x \<Rightarrow> f x)"

text \<open>
  \<^verbatim>\<open>SimulationInputs\<close> is declared in \<^verbatim>\<open>../types/financial\<close>; the type of the
  elements of \<^verbatim>\<open>customParameters\<close> is a parameter here.
\<close>

record 'c SimulationInputs =
  employees :: real
  marketingSpend :: real
  productPrice :: real
  miscExpenses :: real
  currentFunds :: real
  customParameters :: "'c list"

text \<open>The runway is \<^verbatim>\<open>Math.floor\<close> of a quotient, or \<^verbatim>\<open>Infinity\<close>.\<close>

datatype runway_value = Periods int | Infinity

record FinancialData =
  revenue :: real
  expenses :: real
  netProfit :: real
  runway :: runway_value
  profitMargin :: real

record TimeSeriesPoint =
  month :: string
  revenue :: real
  expenses :: real

record FinancialContext =
  currentRevenue :: real
  projectedRevenue :: real
  expenses :: real
  growthRate :: real
  timeHorizon :: real
  cashFlow :: real
  profitMargin :: real

text \<open>
  The row of stored financial data: the object that \<^verbatim>\<open>runSimulation\<close> passes to
  \<^verbatim>\<open>saveFinancialData\<close>, and the \<^verbatim>\<open>financialData\<close> that the hook gives back.
\<close>

record FinancialRow =
  current_funds :: real
  monthly_revenue :: real
  monthly_expenses :: real
  employees :: real
  marketing_spend :: real
  product_price :: real
  misc_expenses :: real

record UsageStats =
  simulations :: int
  exports :: int

record 'c Dashboard =
  inputs :: "'c SimulationInputs"
  results :: "FinancialData option"
  usageStats :: UsageStats
  mockData :: "TimeSeriesPoint list"

subsection \<open>The initial state\<close>

text \<open>
  \<^verbatim>\<open>organizationData?.teamSize || 5\<close>: the team size when there is one and it is not
  \<open>0\<close>, else \<open>5\<close>.
\<close>

definition initial_employees :: "real option \<Rightarrow> real" where
  "initial_employees teamSize =
     (case teamSize of None \<Rightarrow> 5 | Some n \<Rightarrow> if n = 0 then 5 else n)"

definition initial_inputs :: "real option \<Rightarrow> 'c SimulationInputs" where
  "initial_inputs teamSize =
     \<lparr> SimulationInputs.employees = initial_employees teamSize,
       marketingSpend = 200000,
       productPrice = 2999,
       miscExpenses = 150000,
       currentFunds = 5000000,
       customParameters = [] \<rparr>"

definition initial_usageStats :: UsageStats where
  "initial_usageStats = \<lparr> simulations = 12, exports = 5 \<rparr>"

definition initial_mockData :: "TimeSeriesPoint list" where
  "initial_mockData =
     [ \<lparr> month = ''Jan'', TimeSeriesPoint.revenue = 1250000, TimeSeriesPoint.expenses = 875000 \<rparr>,
       \<lparr> month = ''Feb'', TimeSeriesPoint.revenue = 1300000, TimeSeriesPoint.expenses = 900000 \<rparr>,
       \<lparr> month = ''Mar'', TimeSeriesPoint.revenue = 1200000, TimeSeriesPoint.expenses = 850000 \<rparr>,
       \<lparr> month = ''Apr'', TimeSeriesPoint.revenue = 1375000, TimeSeriesPoint.expenses = 950000 \<rparr>,
       \<lparr> month = ''May'', TimeSeriesPoint.revenue = 1450000, TimeSeriesPoint.expenses = 1000000 \<rparr>,
       \<lparr> month = ''Jun'', TimeSeriesPoint.revenue = 1550000, TimeSeriesPoint.expenses = 1050000 \<rparr>,
       \<lparr> month = ''Jul'', TimeSeriesPoint.revenue = 1600000, TimeSeriesPoint.expenses = 1100000 \<rparr>,
       \<lparr> month = ''Aug'', TimeSeriesPoint.revenue = 1750000, TimeSeriesPoint.expenses = 1200000 \<rparr> ]"

definition initial_state :: "real option \<Rightarrow> 'c Dashboard" where
  "initial_state teamSize =
     \<lparr> inputs = initial_inputs teamSize,
       results = None,
       usageStats = initial_usageStats,
       mockData = initial_mockData \<rparr>"

subsection \<open>Loading stored financial data\<close>

text \<open>\<^verbatim>\<open>a || b\<close> on numbers: \<open>b\<close> when \<open>a\<close> is \<open>0\<close> (falsy), else \<open>a\<close>.\<close>

definition or_else :: "real \<Rightarrow> real \<Rightarrow> real" where
  "or_else a b = (if a = 0 then b else a)"

definition loadFinancialData ::
  "FinancialRow option \<Rightarrow> 'c SimulationInputs \<Rightarrow> 'c SimulationInputs" where
  "loadFinancialData financialData prev =
     (case financialData of
        None \<Rightarrow> prev
      | Some fd \<Rightarrow>
          prev \<lparr> currentFunds := or_else (current_funds fd) (currentFunds prev),
                 SimulationInputs.employees :=
                   or_else (FinancialRow.employees fd) (SimulationInputs.employees prev),
                 marketingSpend := or_else (marketing_spend fd) (marketingSpend prev),
                 productPrice := or_else (product_price fd) (productPrice prev),
                 miscExpenses := or_else (misc_expenses fd) (miscExpenses prev),
                 customParameters := customParameters prev \<rparr>)"

subsection \<open>The synthetic series\<close>

text \<open>
  One firing of the interval. \<open>rnd k\<close> is what the \<open>k\<close>-th call of \<^verbatim>\<open>Math.random()\<close>
  during this firing returns (counted from \<open>0\<close>); the point at position \<open>k\<close> makes the
  calls \<open>2 * k\<close> (revenue) and \<open>2 * k + 1\<close> (expenses).
\<close>

definition tick_item :: "real \<Rightarrow> real \<Rightarrow> TimeSeriesPoint \<Rightarrow> TimeSeriesPoint" where
  "tick_item u v item =
     item \<lparr> TimeSeriesPoint.revenue := max 0 (TimeSeriesPoint.revenue item + (u - 0.5) * 125000),
            TimeSeriesPoint.expenses := max 0 (TimeSeriesPoint.expenses item + (v - 0.5) * 75000) \<rparr>"

definition tick :: "(nat \<Rightarrow> real) \<Rightarrow> TimeSeriesPoint list \<Rightarrow> TimeSeriesPoint list" where
  "tick rnd prevData =
     map (\<lambda>(k, item). tick_item (rnd (2 * k)) (rnd (2 * k + 1)) item) (enumerate 0 prevData)"

primrec ticks :: "(nat \<Rightarrow> real) list \<Rightarrow> TimeSeriesPoint list \<Rightarrow> TimeSeriesPoint list" where
  "ticks [] data = data"
| "ticks (rnd # rnds) data = ticks rnds (tick rnd data)"

text \<open>The clamp \<^verbatim>\<open>Math.max(0, ...)\<close> keeps both fields of every point at or above \<open>0\<close>.\<close>

definition nonneg_points :: "TimeSeriesPoint list \<Rightarrow> bool" where
  "nonneg_points data \<longleftrightarrow>
     (\<forall>p \<in> set data. 0 \<le> TimeSeriesPoint.revenue p \<and> 0 \<le> TimeSeriesPoint.expenses p)"

subsection \<open>The projection of \<^verbatim>\<open>runSimulation\<close>\<close>

text \<open>
  \<^verbatim>\<open>organizationData?.organizationType\<close> is \<open>None\<close> when the user, the metadata or the
  field is missing. The comparisons are strict (\<^verbatim>\<open>===\<close>), so a value that is not one
  of the two strings takes the last branch.
\<close>

definition runSimulation_baseMultiplier :: "string option \<Rightarrow> real" where
  "runSimulation_baseMultiplier organizationType =
     (if organizationType = Some ''startup'' then 1.2
      else if organizationType = Some ''event'' then 0.8 else 1.0)"

definition runSimulation_baseSalary :: "string option \<Rightarrow> real" where
  "runSimulation_baseSalary organizationType =
     (if organizationType = Some ''startup'' then 70000 else 60000)"

definition runSimulation_baseFixedCost :: "string option \<Rightarrow> real" where
  "runSimulation_baseFixedCost organizationType =
     (if organizationType = Some ''event'' then 200000 else 300000)"

text \<open>
  The runway (line 96), for the funds and the expenses at hand. The division returns a
  double, the quotient rounded; \<open>fl\<close> is that rounding.
\<close>

definition runSimulation_runway :: "(real \<Rightarrow> real) \<Rightarrow> real \<Rightarrow> real \<Rightarrow> js_failure + runway_value" where
  "runSimulation_runway fl funds spent =
     (if spent > 0
      then and_then (js_divide funds spent) (\<lambda>q. Inr (Periods \<lfloor>fl q\<rfloor>))
      else Inr Infinity)"

text \<open>The object \<^verbatim>\<open>newResults\<close> (lines 81 to 104 of the source).\<close>

definition runSimulation_results ::
  "string option \<Rightarrow> 'c SimulationInputs \<Rightarrow> js_failure + FinancialData" where
  "runSimulation_results organizationType i =
     (let baseMultiplier = runSimulation_baseMultiplier organizationType;
          assumedQuantity = \<lfloor>100 * baseMultiplier\<rfloor>;
          baseSalary = runSimulation_baseSalary organizationType;
          baseFixedCost = runSimulation_baseFixedCost organizationType;
          revenue = productPrice i * of_int assumedQuantity;
          expenses = baseFixedCost + baseSalary * SimulationInputs.employees i
                       + marketingSpend i + miscExpenses i;
          netProfit = revenue - expenses
      in and_then (runSimulation_runway (\<lambda>q. q) (currentFunds i) expenses)
           (\<lambda>runway. and_then
              (if revenue > 0
               then and_then (js_divide netProfit revenue) (\<lambda>q. Inr (q * 100))
               else Inr 0)
              (\<lambda>profitMargin.
                 Inr \<lparr> FinancialData.revenue = revenue,
                       FinancialData.expenses = expenses,
                       netProfit = netProfit,
                       runway = runway,
                       FinancialData.profitMargin = profitMargin \<rparr>)))"

text \<open>The object passed to \<^verbatim>\<open>saveFinancialData\<close> (lines 130 to 138).\<close>

definition financialData_payload ::
  "'c SimulationInputs \<Rightarrow> FinancialData \<Rightarrow> js_failure + FinancialRow" where
  "financialData_payload i r =
     and_then (js_divide (FinancialData.revenue r) 12) (\<lambda>mr.
     and_then (js_divide (FinancialData.expenses r) 12) (\<lambda>me.
       Inr \<lparr> current_funds = currentFunds i,
             monthly_revenue = mr,
             monthly_expenses = me,
             FinancialRow.employees = SimulationInputs.employees i,
             marketing_spend = marketingSpend i,
             product_price = productPrice i,
             misc_expenses = miscExpenses i \<rparr>))"

text \<open>
  The handler \<^verbatim>\<open>runSimulation\<close>: it stores the results, counts the run, and, when the
  hook supplies \<^verbatim>\<open>saveFinancialData\<close> (the flag \<open>canSave\<close>), hands the payload to it.
  The result is the next state and the payload handed over, if any. The scroll and the
  call of \<^verbatim>\<open>simulationService.saveSimulation\<close> touch nothing that is modelled here.
\<close>

definition runSimulation ::
  "string option \<Rightarrow> bool \<Rightarrow> 'c Dashboard \<Rightarrow> js_failure + 'c Dashboard \<times> FinancialRow option" where
  "runSimulation organizationType canSave s =
     and_then (runSimulation_results organizationType (inputs s)) (\<lambda>newResults.
       let s' = s \<lparr> results := Some newResults,
                    usageStats := (usageStats s) \<lparr> simulations := simulations (usageStats s) + 1 \<rparr> \<rparr>
       in if canSave
          then and_then (financialData_payload (inputs s) newResults) (\<lambda>row. Inr (s', Some row))
          else Inr (s', None))"

definition handleExport :: "'c Dashboard \<Rightarrow> 'c Dashboard" where
  "handleExport s =
     s \<lparr> usageStats := (usageStats s) \<lparr> exports := exports (usageStats s) + 1 \<rparr> \<rparr>"

subsection \<open>The snapshot of \<^verbatim>\<open>getFinancialContext\<close>\<close>

definition getFinancialContext_baseMultiplier :: "string option \<Rightarrow> real" where
  "getFinancialContext_baseMultiplier organizationType =
     (if organizationType = Some ''startup'' then 1.2
      else if organizationType = Some ''event'' then 0.8 else 1.0)"

definition getFinancialContext_baseSalary :: "string option \<Rightarrow> real" where
  "getFinancialContext_baseSalary organizationType =
     (if organizationType = Some ''startup'' then 70000 else 60000)"

definition getFinancialContext_baseFixedCost :: "string option \<Rightarrow> real" where
  "getFinancialContext_baseFixedCost organizationType =
     (if organizationType = Some ''event'' then 200000 else 300000)"

text \<open>
  \<^verbatim>\<open>mockData[mockData.length - 1]\<close> is \<^verbatim>\<open>undefined\<close> for the empty array, and
  reading its \<^verbatim>\<open>revenue\<close> throws.
\<close>

definition last_item :: "'a list \<Rightarrow> js_failure + 'a" where
  "last_item xs = (if xs = [] then Inl TypeError else Inr (last xs))"

definition getFinancialContext ::
  "string option \<Rightarrow> 'c SimulationInputs \<Rightarrow> TimeSeriesPoint list \<Rightarrow> js_failure + FinancialContext" where
  "getFinancialContext organizationType i md =
     (let baseMultiplier = getFinancialContext_baseMultiplier organizationType;
          assumedQuantity = \<lfloor>100 * baseMultiplier\<rfloor>;
          baseSalary = getFinancialContext_baseSalary organizationType;
          baseFixedCost = getFinancialContext_baseFixedCost organizationType;
          revenue = productPrice i * of_int assumedQuantity;
          expenses = baseFixedCost + baseSalary * SimulationInputs.employees i
                       + marketingSpend i + miscExpenses i;
          netProfit = revenue - expenses
      in and_then (last_item md) (\<lambda>currentMonthData.
         and_then
           (if revenue > 0
            then and_then (js_divide netProfit revenue) (\<lambda>q. Inr (q * 100))
            else Inr 0)
           (\<lambda>profitMargin.
              Inr \<lparr> currentRevenue = TimeSeriesPoint.revenue currentMonthData,
                    projectedRevenue = revenue,
                    FinancialContext.expenses = expenses,
                    growthRate = 15,
                    timeHorizon = 12,
                    cashFlow = TimeSeriesPoint.revenue currentMonthData
                                 - TimeSeriesPoint.expenses currentMonthData,
                    FinancialContext.profitMargin = profitMargin \<rparr>)))"

subsection \<open>The component as a state machine\<close>

text \<open>
  What can happen to the component: the two buttons, a firing of the interval, the
  hook delivering stored data, and the input panel replacing the inputs
  (\<^verbatim>\<open>onInputChange={setInputs}\<close>).
\<close>

datatype 'c event =
    Run
  | Export
  | Tick "nat \<Rightarrow> real"
  | FinancialDataLoaded "FinancialRow option"
  | InputChange "'c SimulationInputs"

fun step :: "string option \<Rightarrow> bool \<Rightarrow> 'c Dashboard \<Rightarrow> 'c event \<Rightarrow> js_failure + 'c Dashboard" where
  "step organizationType canSave s Run =
     and_then (runSimulation organizationType canSave s) (\<lambda>(s', sent). Inr s')"
| "step organizationType canSave s Export = Inr (handleExport s)"
| "step organizationType canSave s (Tick rnd) = Inr (s \<lparr> mockData := tick rnd (mockData s) \<rparr>)"
| "step organizationType canSave s (FinancialDataLoaded financialData) =
     Inr (s \<lparr> inputs := loadFinancialData financialData (inputs s) \<rparr>)"
| "step organizationType canSave s (InputChange i) = Inr (s \<lparr> inputs := i \<rparr>)"

fun steps :: "string option \<Rightarrow> bool \<Rightarrow> 'c Dashboard \<Rightarrow> 'c event list \<Rightarrow> js_failure + 'c Dashboard" where
  "steps organizationType canSave s [] = Inr s"
| "steps organizationType canSave s (e # es) =
     (case step organizationType canSave s e of
        Inl err \<Rightarrow> Inl err
      | Inr s' \<Rightarrow> steps organizationType canSave s' es)"

subsection \<open>The projection in the words of the specification\<close>

text \<open>
  The rule table of the profile resolver and steps 1 to 4 and 6 of the projection
  calculator, as the specification words them, for comparison with the two source
  functions.
\<close>

record OrganizationProfile =
  quantityMultiplier :: real
  baseSalary :: real
  baseFixedCost :: real

definition spec_profile :: "string option \<Rightarrow> OrganizationProfile" where
  "spec_profile organizationType =
     (if organizationType = Some ''startup''
      then \<lparr> quantityMultiplier = 1.2, baseSalary = 70000, baseFixedCost = 300000 \<rparr>
      else if organizationType = Some ''event''
      then \<lparr> quantityMultiplier = 0.8, baseSalary = 60000, baseFixedCost = 200000 \<rparr>
      else \<lparr> quantityMultiplier = 1.0, baseSalary = 60000, baseFixedCost = 300000 \<rparr>)"

definition spec_assumedQuantity :: "OrganizationProfile \<Rightarrow> int" where
  "spec_assumedQuantity p = \<lfloor>100 * quantityMultiplier p\<rfloor>"

definition spec_revenue :: "OrganizationProfile \<Rightarrow> 'c SimulationInputs \<Rightarrow> real" where
  "spec_revenue p i = productPrice i * of_int (spec_assumedQuantity p)"

definition spec_expenses :: "OrganizationProfile \<Rightarrow> 'c SimulationInputs \<Rightarrow> real" where
  "spec_expenses p i =
     baseFixedCost p + baseSalary p * SimulationInputs.employees i
       + marketingSpend i + miscExpenses i"

definition spec_netProfit :: "OrganizationProfile \<Rightarrow> 'c SimulationInputs \<Rightarrow> real" where
  "spec_netProfit p i = spec_revenue p i - spec_expenses p i"

definition spec_profitMargin :: "OrganizationProfile \<Rightarrow> 'c SimulationInputs \<Rightarrow> real" where
  "spec_profitMargin p i =
     (if spec_revenue p i > 0 then spec_netProfit p i / spec_revenue p i * 100 else 0)"

section \<open>Properties\<close>

subsection \<open>Failure never arises in the projection\<close>

lemma and_then_Inr [simp]: "and_then (Inr x) f = f x"
  by (simp add: and_then_def)

lemma and_then_Inl [simp]: "and_then (Inl e) f = Inl e"
  by (simp add: and_then_def)

lemma runSimulation_results_total: "\<exists>r. runSimulation_results t i = Inr r"
  by (simp add: runSimulation_results_def runSimulation_runway_def Let_def js_divide_def)

lemma runSimulation_results_fields:
  assumes "runSimulation_results t i = Inr r"
  shows "FinancialData.revenue r = productPrice i * of_int \<lfloor>100 * runSimulation_baseMultiplier t\<rfloor>"
    and "FinancialData.expenses r =
           runSimulation_baseFixedCost t + runSimulation_baseSalary t * SimulationInputs.employees i
             + marketingSpend i + miscExpenses i"
    and "netProfit r = FinancialData.revenue r - FinancialData.expenses r"
    and "runway r =
           (if FinancialData.expenses r > 0
            then Periods \<lfloor>currentFunds i / FinancialData.expenses r\<rfloor> else Infinity)"
    and "FinancialData.profitMargin r =
           (if FinancialData.revenue r > 0
            then netProfit r / FinancialData.revenue r * 100 else 0)"
  using assms
  by (auto simp add: runSimulation_results_def runSimulation_runway_def Let_def js_divide_def
        split: if_splits)

lemma getFinancialContext_total:
  "md \<noteq> [] \<Longrightarrow> \<exists>c. getFinancialContext t i md = Inr c"
  by (simp add: getFinancialContext_def Let_def js_divide_def last_item_def)

lemma getFinancialContext_empty: "getFinancialContext t i [] = Inl TypeError"
  by (simp add: getFinancialContext_def Let_def last_item_def)

lemma getFinancialContext_fields:
  assumes "getFinancialContext t i md = Inr c"
  shows "projectedRevenue c = productPrice i * of_int \<lfloor>100 * getFinancialContext_baseMultiplier t\<rfloor>"
    and "FinancialContext.expenses c =
           getFinancialContext_baseFixedCost t
             + getFinancialContext_baseSalary t * SimulationInputs.employees i
             + marketingSpend i + miscExpenses i"
    and "FinancialContext.profitMargin c =
           (if projectedRevenue c > 0
            then (projectedRevenue c - FinancialContext.expenses c) / projectedRevenue c * 100
            else 0)"
    and "currentRevenue c = TimeSeriesPoint.revenue (last md)"
    and "cashFlow c = TimeSeriesPoint.revenue (last md) - TimeSeriesPoint.expenses (last md)"
    and "growthRate c = 15" and "timeHorizon c = 12"
  using assms
  by (auto simp add: getFinancialContext_def Let_def js_divide_def last_item_def split: if_splits)

subsection \<open>The two copies of the formulas\<close>

lemmas profile_defs =
  runSimulation_baseMultiplier_def runSimulation_baseSalary_def runSimulation_baseFixedCost_def
  getFinancialContext_baseMultiplier_def getFinancialContext_baseSalary_def
  getFinancialContext_baseFixedCost_def


lemma baseMultiplier_same: "getFinancialContext_baseMultiplier t = runSimulation_baseMultiplier t"
  by (simp add: getFinancialContext_baseMultiplier_def runSimulation_baseMultiplier_def)

lemma baseSalary_same: "getFinancialContext_baseSalary t = runSimulation_baseSalary t"
  by (simp add: getFinancialContext_baseSalary_def runSimulation_baseSalary_def)

lemma baseFixedCost_same: "getFinancialContext_baseFixedCost t = runSimulation_baseFixedCost t"
  by (simp add: getFinancialContext_baseFixedCost_def runSimulation_baseFixedCost_def)

lemma spec_profile_fields:
  "quantityMultiplier (spec_profile t) = runSimulation_baseMultiplier t"
  "baseSalary (spec_profile t) = runSimulation_baseSalary t"
  "baseFixedCost (spec_profile t) = runSimulation_baseFixedCost t"
  by (simp_all add: spec_profile_def runSimulation_baseMultiplier_def
        runSimulation_baseSalary_def runSimulation_baseFixedCost_def)

text \<open>
  Claim C1. For every inputs record and every organization type, \<^verbatim>\<open>getFinancialContext\<close>
  (on a series that has a last point) and \<^verbatim>\<open>runSimulation\<close> both return, and they give
  the same revenue, the same expenses and the same profit margin. These are the values
  of the specification's steps: the quantity \<open>\<lfloor>100 \<times> multiplier\<rfloor>\<close> is computed once, the
  revenue is the price times that quantity with no second use of the multiplier, and the
  expenses and the margin follow the same formulas.
\<close>

theorem context_agrees_with_projection:
  assumes "md \<noteq> []"
  shows "\<exists>r c. runSimulation_results t i = Inr r \<and> getFinancialContext t i md = Inr c
           \<and> projectedRevenue c = FinancialData.revenue r
           \<and> FinancialContext.expenses c = FinancialData.expenses r
           \<and> FinancialContext.profitMargin c = FinancialData.profitMargin r
           \<and> FinancialData.revenue r = spec_revenue (spec_profile t) i
           \<and> FinancialData.expenses r = spec_expenses (spec_profile t) i
           \<and> FinancialData.profitMargin r = spec_profitMargin (spec_profile t) i"
proof -
  obtain r where r: "runSimulation_results t i = Inr r"
    using runSimulation_results_total by blast
  obtain c where c: "getFinancialContext t i md = Inr c"
    using getFinancialContext_total [OF assms] by blast
  note rf = runSimulation_results_fields [OF r]
  note cf = getFinancialContext_fields [OF c]
  have rev: "projectedRevenue c = FinancialData.revenue r"
    by (simp add: rf(1) cf(1) baseMultiplier_same)
  have exp: "FinancialContext.expenses c = FinancialData.expenses r"
    by (simp add: rf(2) cf(2) baseSalary_same baseFixedCost_same)
  have pm: "FinancialContext.profitMargin c = FinancialData.profitMargin r"
    by (simp add: rf(5) cf(3) rev exp rf(3))
  have srev: "FinancialData.revenue r = spec_revenue (spec_profile t) i"
    by (simp add: rf(1) spec_revenue_def spec_assumedQuantity_def spec_profile_fields)
  have sexp: "FinancialData.expenses r = spec_expenses (spec_profile t) i"
    by (simp add: rf(2) spec_expenses_def spec_profile_fields)
  have spm: "FinancialData.profitMargin r = spec_profitMargin (spec_profile t) i"
    by (simp add: rf(5) rf(3) spec_profitMargin_def spec_netProfit_def
          srev [symmetric] sexp [symmetric])
  from r c rev exp pm srev sexp spm show ?thesis by blast
qed

theorem context_agrees_with_projection_witness:
  "initial_mockData \<noteq> []
   \<and> (\<exists>r c. runSimulation_results (Some ''startup'') (initial_inputs None :: unit SimulationInputs) = Inr r
          \<and> getFinancialContext (Some ''startup'') (initial_inputs None :: unit SimulationInputs)
               initial_mockData = Inr c
          \<and> projectedRevenue c = FinancialData.revenue r
          \<and> FinancialContext.expenses c = FinancialData.expenses r
          \<and> FinancialContext.profitMargin c = FinancialData.profitMargin r
          \<and> FinancialData.revenue r
               = spec_revenue (spec_profile (Some ''startup'')) (initial_inputs None :: unit SimulationInputs)
          \<and> FinancialData.expenses r
               = spec_expenses (spec_profile (Some ''startup'')) (initial_inputs None :: unit SimulationInputs)
          \<and> FinancialData.profitMargin r
               = spec_profitMargin (spec_profile (Some ''startup''))
                   (initial_inputs None :: unit SimulationInputs))"
proof -
  have h: "initial_mockData \<noteq> []"
    by (simp add: initial_mockData_def)
  show ?thesis
    using h context_agrees_with_projection
            [OF h, of "Some ''startup''" "initial_inputs None :: unit SimulationInputs"]
    by blast
qed

subsection \<open>The start-up scenario\<close>

text \<open>
  Claim C2. For the organization type \<open>startup\<close>, a price of 2999, 5 employees, a
  marketing spend of 200000, miscellaneous expenses of 150000 and funds of 5000000, the
  projection is: revenue 359880, expenses 1000000, net profit \<open>-640120\<close>, runway 5 and
  profit margin \<open>(-640120 / 359880) \<times> 100\<close>; the constants are 1.2, 70000 and 300000 and
  the assumed quantity is 120.
\<close>

theorem startup_scenario:
  "runSimulation_results (Some ''startup'')
     \<lparr> SimulationInputs.employees = 5, marketingSpend = 200000, productPrice = 2999,
       miscExpenses = 150000, currentFunds = 5000000, customParameters = cp \<rparr>
   = Inr \<lparr> FinancialData.revenue = 359880, FinancialData.expenses = 1000000,
           netProfit = - 640120, runway = Periods 5,
           FinancialData.profitMargin = (- 640120 / 359880) * 100 \<rparr>
   \<and> runSimulation_baseMultiplier (Some ''startup'') = 1.2
   \<and> runSimulation_baseSalary (Some ''startup'') = 70000
   \<and> runSimulation_baseFixedCost (Some ''startup'') = 300000
   \<and> \<lfloor>100 * runSimulation_baseMultiplier (Some ''startup'')\<rfloor> = 120"
  by (simp add: runSimulation_results_def runSimulation_runway_def Let_def js_divide_def
        profile_defs)

subsection \<open>The runway\<close>


text \<open>
  Inputs whose fields are not negative, as the data model has them, give positive
  expenses, since the fixed cost is positive.
\<close>

lemma expenses_positive:
  assumes "runSimulation_results t i = Inr r"
    and "0 \<le> SimulationInputs.employees i" "0 \<le> marketingSpend i" "0 \<le> miscExpenses i"
  shows "0 < FinancialData.expenses r"
proof -
  have "0 \<le> runSimulation_baseSalary t * SimulationInputs.employees i"
    using assms(2) by (simp add: runSimulation_baseSalary_def)
  moreover have "0 < runSimulation_baseFixedCost t"
    by (simp add: runSimulation_baseFixedCost_def)
  ultimately show ?thesis
    using assms(3,4) by (simp add: runSimulation_results_fields(2) [OF assms(1)])
qed





subsection \<open>The profit margin\<close>

text \<open>
  Claim C4. In the projection and in the context alike, the profit margin is \<open>0\<close>
  whenever the revenue is \<open>0\<close>, whatever the net profit; when the revenue is positive it
  is the net profit divided by the revenue, times 100.
\<close>

theorem profitMargin_guarded:
  assumes "md \<noteq> []"
  shows "\<exists>r c. runSimulation_results t i = Inr r \<and> getFinancialContext t i md = Inr c
           \<and> (FinancialData.revenue r = 0 \<longrightarrow> FinancialData.profitMargin r = 0)
           \<and> (projectedRevenue c = 0 \<longrightarrow> FinancialContext.profitMargin c = 0)
           \<and> (0 < FinancialData.revenue r \<longrightarrow>
                 FinancialData.profitMargin r = netProfit r / FinancialData.revenue r * 100)
           \<and> (0 < projectedRevenue c \<longrightarrow>
                 FinancialContext.profitMargin c
                   = (projectedRevenue c - FinancialContext.expenses c) / projectedRevenue c * 100)"
proof -
  obtain r where r: "runSimulation_results t i = Inr r"
    using runSimulation_results_total by blast
  obtain c where c: "getFinancialContext t i md = Inr c"
    using getFinancialContext_total [OF assms] by blast
  note rpm = runSimulation_results_fields(5) [OF r]
  note cpm = getFinancialContext_fields(3) [OF c]
  have r0: "FinancialData.revenue r = 0 \<longrightarrow> FinancialData.profitMargin r = 0"
    by (simp add: rpm)
  have c0: "projectedRevenue c = 0 \<longrightarrow> FinancialContext.profitMargin c = 0"
    by (simp add: cpm)
  have r1: "0 < FinancialData.revenue r \<longrightarrow>
              FinancialData.profitMargin r = netProfit r / FinancialData.revenue r * 100"
    by (simp add: rpm)
  have c1: "0 < projectedRevenue c \<longrightarrow>
              FinancialContext.profitMargin c
                = (projectedRevenue c - FinancialContext.expenses c) / projectedRevenue c * 100"
    by (simp add: cpm)
  from r c r0 c0 r1 c1 show ?thesis by blast
qed

theorem profitMargin_guarded_witness:
  "initial_mockData \<noteq> []
   \<and> (\<exists>r c. runSimulation_results None
               ((initial_inputs None :: unit SimulationInputs) \<lparr> productPrice := 0 \<rparr>) = Inr r
          \<and> getFinancialContext None
               ((initial_inputs None :: unit SimulationInputs) \<lparr> productPrice := 0 \<rparr>)
               initial_mockData = Inr c
          \<and> FinancialData.revenue r = 0 \<and> netProfit r = - 950000
          \<and> FinancialData.profitMargin r = 0
          \<and> projectedRevenue c = 0 \<and> FinancialContext.profitMargin c = 0)
   \<and> (\<exists>r c. runSimulation_results None (initial_inputs None :: unit SimulationInputs) = Inr r
          \<and> getFinancialContext None (initial_inputs None :: unit SimulationInputs)
               initial_mockData = Inr c
          \<and> 0 < FinancialData.revenue r \<and> 0 < projectedRevenue c
          \<and> FinancialData.profitMargin r = netProfit r / FinancialData.revenue r * 100
          \<and> FinancialContext.profitMargin c
               = (projectedRevenue c - FinancialContext.expenses c) / projectedRevenue c * 100)"
proof -
  let ?i = "initial_inputs None :: unit SimulationInputs"
  let ?z = "?i \<lparr> productPrice := 0 \<rparr>"
  have h: "initial_mockData \<noteq> []"
    by (simp add: initial_mockData_def)
  obtain r c where r: "runSimulation_results None ?z = Inr r"
    and c: "getFinancialContext None ?z initial_mockData = Inr c"
    and r0: "FinancialData.revenue r = 0 \<longrightarrow> FinancialData.profitMargin r = 0"
    and c0: "projectedRevenue c = 0 \<longrightarrow> FinancialContext.profitMargin c = 0"
    using profitMargin_guarded [OF h, of None ?z] by blast
  have rr: "FinancialData.revenue r = 0"
    by (simp add: runSimulation_results_fields(1) [OF r])
  have rn: "netProfit r = - 950000"
    by (simp add: runSimulation_results_fields(3) [OF r] rr
          runSimulation_results_fields(2) [OF r] profile_defs
          initial_inputs_def initial_employees_def)
  have cr: "projectedRevenue c = 0"
    by (simp add: getFinancialContext_fields(1) [OF c])
  have first: "FinancialData.revenue r = 0 \<and> netProfit r = - 950000
                 \<and> FinancialData.profitMargin r = 0
                 \<and> projectedRevenue c = 0 \<and> FinancialContext.profitMargin c = 0"
    using r0 c0 rr rn cr by simp
  obtain p d where p: "runSimulation_results None ?i = Inr p"
    and d: "getFinancialContext None ?i initial_mockData = Inr d"
    and p1: "0 < FinancialData.revenue p \<longrightarrow>
               FinancialData.profitMargin p = netProfit p / FinancialData.revenue p * 100"
    and d1: "0 < projectedRevenue d \<longrightarrow>
               FinancialContext.profitMargin d
                 = (projectedRevenue d - FinancialContext.expenses d) / projectedRevenue d * 100"
    using profitMargin_guarded [OF h, of None ?i] by blast
  have pr: "0 < FinancialData.revenue p"
    by (simp add: runSimulation_results_fields(1) [OF p] profile_defs initial_inputs_def)
  have dr: "0 < projectedRevenue d"
    by (simp add: getFinancialContext_fields(1) [OF d] profile_defs initial_inputs_def)
  have second: "0 < FinancialData.revenue p \<and> 0 < projectedRevenue d
                  \<and> FinancialData.profitMargin p = netProfit p / FinancialData.revenue p * 100
                  \<and> FinancialContext.profitMargin d
                       = (projectedRevenue d - FinancialContext.expenses d) / projectedRevenue d * 100"
    using p1 d1 pr dr by simp
  from h r c first p d second show ?thesis by blast
qed

subsection \<open>The constants of an organization type\<close>

text \<open>
  Claim C5. In both functions the three constants are 1.2, 70000, 300000 for
  \<open>startup\<close>; 0.8, 60000, 200000 for \<open>event\<close>; and 1.0, 60000, 300000 for every other
  type and for a missing one. The functions are total: no type is an error.
\<close>

theorem profile_table:
  "(t = Some ''startup'' \<longrightarrow>
      (runSimulation_baseMultiplier t, runSimulation_baseSalary t, runSimulation_baseFixedCost t)
        = (1.2, 70000, 300000)
      \<and> (getFinancialContext_baseMultiplier t, getFinancialContext_baseSalary t,
           getFinancialContext_baseFixedCost t) = (1.2, 70000, 300000))
   \<and> (t = Some ''event'' \<longrightarrow>
      (runSimulation_baseMultiplier t, runSimulation_baseSalary t, runSimulation_baseFixedCost t)
        = (0.8, 60000, 200000)
      \<and> (getFinancialContext_baseMultiplier t, getFinancialContext_baseSalary t,
           getFinancialContext_baseFixedCost t) = (0.8, 60000, 200000))
   \<and> (t \<noteq> Some ''startup'' \<and> t \<noteq> Some ''event'' \<longrightarrow>
      (runSimulation_baseMultiplier t, runSimulation_baseSalary t, runSimulation_baseFixedCost t)
        = (1.0, 60000, 300000)
      \<and> (getFinancialContext_baseMultiplier t, getFinancialContext_baseSalary t,
           getFinancialContext_baseFixedCost t) = (1.0, 60000, 300000))"
  by (simp add: profile_defs)

theorem profile_table_witness:
  "(runSimulation_baseMultiplier (Some ''startup''), runSimulation_baseSalary (Some ''startup''),
      runSimulation_baseFixedCost (Some ''startup'')) = (1.2, 70000, 300000)
   \<and> (getFinancialContext_baseMultiplier (Some ''event''), getFinancialContext_baseSalary (Some ''event''),
      getFinancialContext_baseFixedCost (Some ''event'')) = (0.8, 60000, 200000)
   \<and> (runSimulation_baseMultiplier None, runSimulation_baseSalary None,
      runSimulation_baseFixedCost None) = (1.0, 60000, 300000)
   \<and> (getFinancialContext_baseMultiplier (Some ''nonprofit''),
      getFinancialContext_baseSalary (Some ''nonprofit''),
      getFinancialContext_baseFixedCost (Some ''nonprofit'')) = (1.0, 60000, 300000)"
  using profile_table [of "Some ''startup''"] profile_table [of "Some ''event''"]
    profile_table [of None] profile_table [of "Some ''nonprofit''"]
  by simp

subsection \<open>The synthetic series\<close>

lemma length_tick: "length (tick rnd prevData) = length prevData"
  by (simp add: tick_def)

lemma tick_nth:
  "k < length prevData \<Longrightarrow>
     tick rnd prevData ! k = tick_item (rnd (2 * k)) (rnd (2 * k + 1)) (prevData ! k)"
  by (simp add: tick_def nth_enumerate_eq)

lemma month_tick_item: "month (tick_item u v item) = month item"
  by (simp add: tick_item_def)

lemma tick_item_nonneg:
  "0 \<le> TimeSeriesPoint.revenue (tick_item u v item)"
  "0 \<le> TimeSeriesPoint.expenses (tick_item u v item)"
  by (simp_all add: tick_item_def)

lemma map_month_tick: "map month (tick rnd prevData) = map month prevData"
  by (rule nth_equalityI) (simp_all add: length_tick tick_nth month_tick_item)

lemma tick_nonneg:
  assumes "p \<in> set (tick rnd prevData)"
  shows "0 \<le> TimeSeriesPoint.revenue p \<and> 0 \<le> TimeSeriesPoint.expenses p"
proof -
  from assms obtain k where "k < length prevData" and "p = tick rnd prevData ! k"
    by (auto simp add: in_set_conv_nth length_tick)
  then show ?thesis
    by (simp add: tick_nth tick_item_nonneg)
qed

lemma nonneg_points_tick: "nonneg_points (tick rnd prevData)"
  using tick_nonneg by (auto simp add: nonneg_points_def)

lemma ticks_invariant:
  "nonneg_points data \<Longrightarrow>
     length (ticks rnds data) = length data
     \<and> map month (ticks rnds data) = map month data
     \<and> nonneg_points (ticks rnds data)"
proof (induction rnds arbitrary: data)
  case Nil
  then show ?case by simp
next
  case (Cons rnd rnds)
  from Cons.IH [OF nonneg_points_tick, of rnd data] show ?case
    by (simp add: length_tick map_month_tick)
qed

lemma nonneg_initial_mockData: "nonneg_points initial_mockData"
  by (simp add: nonneg_points_def initial_mockData_def)

text \<open>
  Claim C6. After any sequence of ticks from the seed, whatever the random draws, the
  series has 8 points, the revenue and the expenses of every point are at least \<open>0\<close>,
  and the month labels are those of the seed.
\<close>

theorem series_invariant:
  "length (ticks rnds initial_mockData) = 8
   \<and> (\<forall>p \<in> set (ticks rnds initial_mockData).
         0 \<le> TimeSeriesPoint.revenue p \<and> 0 \<le> TimeSeriesPoint.expenses p)
   \<and> map month (ticks rnds initial_mockData)
        = [''Jan'', ''Feb'', ''Mar'', ''Apr'', ''May'', ''Jun'', ''Jul'', ''Aug'']"
proof -
  note inv = ticks_invariant [OF nonneg_initial_mockData, of rnds]
  have "length (ticks rnds initial_mockData) = 8"
    using inv by (simp add: initial_mockData_def)
  moreover have "map month (ticks rnds initial_mockData)
        = [''Jan'', ''Feb'', ''Mar'', ''Apr'', ''May'', ''Jun'', ''Jul'', ''Aug'']"
    using inv by (simp add: initial_mockData_def)
  moreover have "\<forall>p \<in> set (ticks rnds initial_mockData).
         0 \<le> TimeSeriesPoint.revenue p \<and> 0 \<le> TimeSeriesPoint.expenses p"
    using inv by (simp add: nonneg_points_def)
  ultimately show ?thesis by blast
qed

theorem series_invariant_witness:
  "ticks [\<lambda>k. 0] initial_mockData ! 0
     = \<lparr> month = ''Jan'', TimeSeriesPoint.revenue = 1187500, TimeSeriesPoint.expenses = 837500 \<rparr>
   \<and> ticks [\<lambda>k. 0] initial_mockData ! 0 \<in> set (ticks [\<lambda>k. 0] initial_mockData)
   \<and> 0 \<le> TimeSeriesPoint.revenue (ticks [\<lambda>k. 0] initial_mockData ! 0)
   \<and> 0 \<le> TimeSeriesPoint.expenses (ticks [\<lambda>k. 0] initial_mockData ! 0)
   \<and> length (ticks [\<lambda>k. 0] initial_mockData) = 8"
proof -
  note inv = series_invariant [of "[\<lambda>k. 0]"]
  have len: "length (ticks [\<lambda>k. 0] initial_mockData) = 8"
    using inv by blast
  have mem: "ticks [\<lambda>k. 0] initial_mockData ! 0 \<in> set (ticks [\<lambda>k. 0] initial_mockData)"
    using len by (simp del: ticks.simps)
  have val: "ticks [\<lambda>k. 0] initial_mockData ! 0
     = \<lparr> month = ''Jan'', TimeSeriesPoint.revenue = 1187500, TimeSeriesPoint.expenses = 837500 \<rparr>"
    by (simp add: initial_mockData_def tick_def tick_item_def)
  from inv mem have "0 \<le> TimeSeriesPoint.revenue (ticks [\<lambda>k. 0] initial_mockData ! 0)
   \<and> 0 \<le> TimeSeriesPoint.expenses (ticks [\<lambda>k. 0] initial_mockData ! 0)"
    by blast
  with val mem len show ?thesis by blast
qed

text \<open>
  Claim C7. One tick keeps the length of the series, and the point at position \<open>k\<close>
  keeps its month, while its revenue becomes \<open>max 0 (revenue + (u - 0.5) \<times> 125000)\<close> and
  its expenses \<open>max 0 (expenses + (v - 0.5) \<times> 75000)\<close>, for the point's own two draws
  \<open>u\<close> and \<open>v\<close>. With draws in \<open>[0, 1)\<close> the two perturbations lie in
  \<open>[-62500, 62500)\<close> and \<open>[-37500, 37500)\<close>.
\<close>

theorem tick_perturbs_each_point:
  assumes "\<forall>j. 0 \<le> rnd j \<and> rnd j < 1" and "k < length prevData"
  shows "length (tick rnd prevData) = length prevData
    \<and> (\<exists>u v dr de. u = rnd (2 * k) \<and> v = rnd (2 * k + 1)
          \<and> dr = (u - 0.5) * 125000 \<and> de = (v - 0.5) * 75000
          \<and> - 62500 \<le> dr \<and> dr < 62500 \<and> - 37500 \<le> de \<and> de < 37500
          \<and> tick rnd prevData ! k
              = \<lparr> month = month (prevData ! k),
                  TimeSeriesPoint.revenue = max 0 (TimeSeriesPoint.revenue (prevData ! k) + dr),
                  TimeSeriesPoint.expenses = max 0 (TimeSeriesPoint.expenses (prevData ! k) + de) \<rparr>)"
proof -
  from assms(1) have u: "0 \<le> rnd (2 * k)" "rnd (2 * k) < 1"
    and v: "0 \<le> rnd (2 * k + 1)" "rnd (2 * k + 1) < 1"
    by simp_all
  have dr: "- 62500 \<le> (rnd (2 * k) - 0.5) * 125000" "(rnd (2 * k) - 0.5) * 125000 < 62500"
    using u by simp_all
  have de: "- 37500 \<le> (rnd (2 * k + 1) - 0.5) * 75000" "(rnd (2 * k + 1) - 0.5) * 75000 < 37500"
    using v by simp_all
  have pt: "tick rnd prevData ! k
      = \<lparr> month = month (prevData ! k),
          TimeSeriesPoint.revenue =
            max 0 (TimeSeriesPoint.revenue (prevData ! k) + (rnd (2 * k) - 0.5) * 125000),
          TimeSeriesPoint.expenses =
            max 0 (TimeSeriesPoint.expenses (prevData ! k) + (rnd (2 * k + 1) - 0.5) * 75000) \<rparr>"
    by (simp add: tick_nth [OF assms(2)] tick_item_def)
  from dr de pt show ?thesis
    by (simp add: length_tick)
qed

theorem tick_perturbs_each_point_witness:
  "(\<forall>j::nat. (0::real) \<le> (if j = 0 then 0 else 0.5) \<and> (if j = 0 then 0 else 0.5 :: real) < 1)
   \<and> 0 < length [\<lparr> month = ''Jan'', TimeSeriesPoint.revenue = 50000,
                     TimeSeriesPoint.expenses = 875000 \<rparr>]
   \<and> tick (\<lambda>j. if j = 0 then 0 else 0.5)
        [\<lparr> month = ''Jan'', TimeSeriesPoint.revenue = 50000, TimeSeriesPoint.expenses = 875000 \<rparr>] ! 0
      = \<lparr> month = ''Jan'', TimeSeriesPoint.revenue = 0, TimeSeriesPoint.expenses = 875000 \<rparr>"
proof -
  let ?rnd = "\<lambda>j::nat. if j = 0 then 0 else 0.5 :: real"
  let ?data = "[\<lparr> month = ''Jan'', TimeSeriesPoint.revenue = 50000,
                  TimeSeriesPoint.expenses = 875000 \<rparr>]"
  have draws: "\<forall>j. 0 \<le> ?rnd j \<and> ?rnd j < 1"
    by simp
  have pos: "0 < length ?data"
    by simp
  from tick_perturbs_each_point [OF draws pos]
  obtain u v dr de where u: "u = ?rnd (2 * 0)" and v: "v = ?rnd (2 * 0 + 1)"
    and dr: "dr = (u - 0.5) * 125000" and de: "de = (v - 0.5) * 75000"
    and pt: "tick ?rnd ?data ! 0
      = \<lparr> month = month (?data ! 0),
          TimeSeriesPoint.revenue = max 0 (TimeSeriesPoint.revenue (?data ! 0) + dr),
          TimeSeriesPoint.expenses = max 0 (TimeSeriesPoint.expenses (?data ! 0) + de) \<rparr>"
    by blast
  have "dr = - 62500" and "de = 0"
    by (simp_all add: u v dr de)
  with pt have "tick ?rnd ?data ! 0
      = \<lparr> month = ''Jan'', TimeSeriesPoint.revenue = 0, TimeSeriesPoint.expenses = 875000 \<rparr>"
    by simp
  with draws pos show ?thesis by blast
qed

subsection \<open>The usage counters\<close>

lemma financialData_payload_Inr:
  "financialData_payload i r =
     Inr \<lparr> current_funds = currentFunds i,
           monthly_revenue = FinancialData.revenue r / 12,
           monthly_expenses = FinancialData.expenses r / 12,
           FinancialRow.employees = SimulationInputs.employees i,
           marketing_spend = marketingSpend i,
           product_price = productPrice i,
           misc_expenses = miscExpenses i \<rparr>"
  by (simp add: financialData_payload_def js_divide_def)

lemma runSimulation_Inr:
  assumes "runSimulation_results t (inputs s) = Inr r"
  shows "runSimulation t canSave s =
     Inr (s \<lparr> results := Some r,
              usageStats := (usageStats s) \<lparr> simulations := simulations (usageStats s) + 1 \<rparr> \<rparr>,
          if canSave
          then Some \<lparr> current_funds = currentFunds (inputs s),
                      monthly_revenue = FinancialData.revenue r / 12,
                      monthly_expenses = FinancialData.expenses r / 12,
                      FinancialRow.employees = SimulationInputs.employees (inputs s),
                      marketing_spend = marketingSpend (inputs s),
                      product_price = productPrice (inputs s),
                      misc_expenses = miscExpenses (inputs s) \<rparr>
          else None)"
  by (simp add: runSimulation_def assms Let_def financialData_payload_Inr)

lemma step_total: "\<exists>s'. step t canSave s e = Inr s'"
proof (cases e)
  case Run
  obtain r where "runSimulation_results t (inputs s) = Inr r"
    using runSimulation_results_total by blast
  then show ?thesis
    by (simp add: Run runSimulation_Inr)
qed simp_all

lemma step_usageStats:
  assumes "step t canSave s e = Inr s'"
  shows "simulations (usageStats s') = simulations (usageStats s) + (if e = Run then 1 else 0)"
    and "exports (usageStats s') = exports (usageStats s) + (if e = Export then 1 else 0)"
proof -
  obtain r where r: "runSimulation_results t (inputs s) = Inr r"
    using runSimulation_results_total by blast
  show "simulations (usageStats s') = simulations (usageStats s) + (if e = Run then 1 else 0)"
    using assms by (cases e) (auto simp add: runSimulation_Inr [OF r] handleExport_def)
  show "exports (usageStats s') = exports (usageStats s) + (if e = Export then 1 else 0)"
    using assms by (cases e) (auto simp add: runSimulation_Inr [OF r] handleExport_def)
qed

lemma steps_total: "\<exists>s'. steps t canSave s es = Inr s'"
proof (induction es arbitrary: s)
  case Nil
  show ?case by simp
next
  case (Cons e es)
  obtain s1 where s1: "step t canSave s e = Inr s1"
    using step_total by blast
  from Cons.IH [of s1] show ?case
    by (simp add: s1)
qed

lemma steps_usageStats:
  "steps t canSave s es = Inr s' \<Longrightarrow>
     simulations (usageStats s') = simulations (usageStats s) + int (count_list es Run)
     \<and> exports (usageStats s') = exports (usageStats s) + int (count_list es Export)"
proof (induction es arbitrary: s)
  case Nil
  then show ?case by simp
next
  case (Cons e es)
  obtain s1 where s1: "step t canSave s e = Inr s1"
    using step_total by blast
  with Cons.prems have rest: "steps t canSave s1 es = Inr s'"
    by simp
  from Cons.IH [OF rest] step_usageStats [OF s1] show ?case
    by auto
qed

text \<open>
  No event changes the length of the series, so the series of every state reached
  from the initial one has a last point, and \<^verbatim>\<open>getFinancialContext\<close> returns there.
\<close>

lemma step_length_mockData:
  assumes "step t canSave s e = Inr s'"
  shows "length (mockData s') = length (mockData s)"
proof -
  obtain r where r: "runSimulation_results t (inputs s) = Inr r"
    using runSimulation_results_total by blast
  show ?thesis
    using assms
    by (cases e) (auto simp add: runSimulation_Inr [OF r] handleExport_def length_tick)
qed

lemma steps_length_mockData:
  "steps t canSave s es = Inr s' \<Longrightarrow> length (mockData s') = length (mockData s)"
proof (induction es arbitrary: s)
  case Nil
  then show ?case by simp
next
  case (Cons e es)
  obtain s1 where s1: "step t canSave s e = Inr s1"
    using step_total by blast
  with Cons.prems have rest: "steps t canSave s1 es = Inr s'"
    by simp
  from Cons.IH [OF rest] step_length_mockData [OF s1] show ?case
    by simp
qed

lemma reachable_context_returns:
  assumes "steps t canSave (initial_state teamSize) es = Inr s'"
  shows "\<exists>c. getFinancialContext t (inputs s') (mockData s') = Inr c"
proof -
  have "length (mockData s') = 8"
    using steps_length_mockData [OF assms]
    by (simp add: initial_state_def initial_mockData_def)
  then have "mockData s' \<noteq> []"
    by auto
  then show ?thesis
    by (rule getFinancialContext_total)
qed

text \<open>
  Claim C8. A run adds exactly 1 to \<open>simulations\<close> and leaves \<open>exports\<close> alone; an
  export adds exactly 1 to \<open>exports\<close> and leaves \<open>simulations\<close> alone. Over any sequence
  of events of the component, the counters grow by the number of runs and of exports in
  the sequence, so neither ever decreases.
\<close>

theorem usage_counters:
  "(\<exists>s' sent. runSimulation t canSave s = Inr (s', sent)
       \<and> simulations (usageStats s') = simulations (usageStats s) + 1
       \<and> exports (usageStats s') = exports (usageStats s))
   \<and> exports (usageStats (handleExport s)) = exports (usageStats s) + 1
   \<and> simulations (usageStats (handleExport s)) = simulations (usageStats s)
   \<and> (\<exists>s'. steps t canSave s es = Inr s'
         \<and> simulations (usageStats s') = simulations (usageStats s) + int (count_list es Run)
         \<and> exports (usageStats s') = exports (usageStats s) + int (count_list es Export)
         \<and> simulations (usageStats s) \<le> simulations (usageStats s')
         \<and> exports (usageStats s) \<le> exports (usageStats s'))"
proof -
  obtain r where r: "runSimulation_results t (inputs s) = Inr r"
    using runSimulation_results_total by blast
  have run: "\<exists>s' sent. runSimulation t canSave s = Inr (s', sent)
       \<and> simulations (usageStats s') = simulations (usageStats s) + 1
       \<and> exports (usageStats s') = exports (usageStats s)"
    by (simp add: runSimulation_Inr [OF r])
  have export: "exports (usageStats (handleExport s)) = exports (usageStats s) + 1"
    "simulations (usageStats (handleExport s)) = simulations (usageStats s)"
    by (simp_all add: handleExport_def)
  obtain s' where s': "steps t canSave s es = Inr s'"
    using steps_total by blast
  note counts = steps_usageStats [OF s']
  have mono: "simulations (usageStats s) \<le> simulations (usageStats s')"
    "exports (usageStats s) \<le> exports (usageStats s')"
    using counts by simp_all
  from run export s' counts mono show ?thesis by blast
qed

theorem usage_counters_witness:
  "\<exists>s'. steps None False (initial_state None :: unit Dashboard)
           [Run, Export, Tick (\<lambda>k. 0), Run] = Inr s'
        \<and> simulations (usageStats s') = 14 \<and> exports (usageStats s') = 6"
proof -
  let ?s = "initial_state None :: unit Dashboard"
  let ?es = "[Run, Export, Tick (\<lambda>k. 0), Run] :: unit event list"
  obtain s' where run: "steps None False ?s ?es = Inr s'"
    and sim: "simulations (usageStats s')
                = simulations (usageStats ?s) + int (count_list ?es Run)"
    and exp: "exports (usageStats s')
                = exports (usageStats ?s) + int (count_list ?es Export)"
    using usage_counters [of None False ?s ?es] by blast
  have "simulations (usageStats s') = 14"
    using sim by (simp add: initial_state_def initial_usageStats_def)
  moreover have "exports (usageStats s') = 6"
    using exp by (simp add: initial_state_def initial_usageStats_def)
  ultimately show ?thesis
    using run by blast
qed

subsection \<open>The payload of a run\<close>

text \<open>
  Claim C9. When a run hands a payload to \<^verbatim>\<open>saveFinancialData\<close>, the payload is the
  record of the seven fields \<open>current_funds\<close>, \<open>monthly_revenue\<close>, \<open>monthly_expenses\<close>,
  \<open>employees\<close>, \<open>marketing_spend\<close>, \<open>product_price\<close> and \<open>misc_expenses\<close>, where the two
  monthly fields are the revenue and the expenses of the results of that same run
  divided by 12, and the other five are the inputs. A payload is handed over exactly
  when the hook supplies \<^verbatim>\<open>saveFinancialData\<close>.
\<close>

theorem saved_payload:
  "\<exists>r s' sent. runSimulation_results t (inputs s) = Inr r
       \<and> runSimulation t canSave s = Inr (s', sent)
       \<and> results s' = Some r
       \<and> (canSave \<longrightarrow>
            sent = Some \<lparr> current_funds = currentFunds (inputs s),
                          monthly_revenue = FinancialData.revenue r / 12,
                          monthly_expenses = FinancialData.expenses r / 12,
                          FinancialRow.employees = SimulationInputs.employees (inputs s),
                          marketing_spend = marketingSpend (inputs s),
                          product_price = productPrice (inputs s),
                          misc_expenses = miscExpenses (inputs s) \<rparr>)
       \<and> (\<not> canSave \<longrightarrow> sent = None)"
proof -
  obtain r where r: "runSimulation_results t (inputs s) = Inr r"
    using runSimulation_results_total by blast
  show ?thesis
    by (simp add: r runSimulation_Inr [OF r])
qed

theorem saved_payload_witness:
  "\<exists>s'. runSimulation (Some ''startup'') True (initial_state None :: unit Dashboard)
      = Inr (s', Some \<lparr> current_funds = 5000000,
                        monthly_revenue = 29990,
                        monthly_expenses = 1000000 / 12,
                        FinancialRow.employees = 5,
                        marketing_spend = 200000,
                        product_price = 2999,
                        misc_expenses = 150000 \<rparr>)"
proof -
  let ?s = "initial_state None :: unit Dashboard"
  obtain r s' sent where r: "runSimulation_results (Some ''startup'') (inputs ?s) = Inr r"
    and run: "runSimulation (Some ''startup'') True ?s = Inr (s', sent)"
    and sent: "True \<longrightarrow>
            sent = Some \<lparr> current_funds = currentFunds (inputs ?s),
                          monthly_revenue = FinancialData.revenue r / 12,
                          monthly_expenses = FinancialData.expenses r / 12,
                          FinancialRow.employees = SimulationInputs.employees (inputs ?s),
                          marketing_spend = marketingSpend (inputs ?s),
                          product_price = productPrice (inputs ?s),
                          misc_expenses = miscExpenses (inputs ?s) \<rparr>"
    using saved_payload [of "Some ''startup''" ?s True] by blast
  have rev: "FinancialData.revenue r = 359880"
    using runSimulation_results_fields(1) [OF r]
    by (simp add: runSimulation_baseMultiplier_def initial_state_def initial_inputs_def)
  have exp: "FinancialData.expenses r = 1000000"
    using runSimulation_results_fields(2) [OF r]
    by (simp add: runSimulation_baseSalary_def runSimulation_baseFixedCost_def
          initial_state_def initial_inputs_def initial_employees_def)
  from sent have "sent = Some \<lparr> current_funds = 5000000,
                        monthly_revenue = 29990,
                        monthly_expenses = 1000000 / 12,
                        FinancialRow.employees = 5,
                        marketing_spend = 200000,
                        product_price = 2999,
                        misc_expenses = 150000 \<rparr>"
    by (simp add: rev exp initial_state_def initial_inputs_def initial_employees_def)
  with run show ?thesis by blast
qed

subsection \<open>Loading stored financial data\<close>

text \<open>
  Claim C10. Loading a stored row keeps the previous value of each of the five numeric
  inputs whose stored value is \<open>0\<close>, replaces the ones whose stored value is not \<open>0\<close>,
  and leaves \<open>customParameters\<close> as it was. Nothing else of the state changes, and a
  missing row changes nothing.
\<close>

theorem stored_zero_keeps_input:
  "loadFinancialData None prev = prev
   \<and> customParameters (loadFinancialData (Some fd) prev) = customParameters prev
   \<and> (current_funds fd = 0 \<longrightarrow> currentFunds (loadFinancialData (Some fd) prev) = currentFunds prev)
   \<and> (current_funds fd \<noteq> 0 \<longrightarrow> currentFunds (loadFinancialData (Some fd) prev) = current_funds fd)
   \<and> (FinancialRow.employees fd = 0 \<longrightarrow>
        SimulationInputs.employees (loadFinancialData (Some fd) prev) = SimulationInputs.employees prev)
   \<and> (FinancialRow.employees fd \<noteq> 0 \<longrightarrow>
        SimulationInputs.employees (loadFinancialData (Some fd) prev) = FinancialRow.employees fd)
   \<and> (marketing_spend fd = 0 \<longrightarrow>
        marketingSpend (loadFinancialData (Some fd) prev) = marketingSpend prev)
   \<and> (marketing_spend fd \<noteq> 0 \<longrightarrow>
        marketingSpend (loadFinancialData (Some fd) prev) = marketing_spend fd)
   \<and> (product_price fd = 0 \<longrightarrow> productPrice (loadFinancialData (Some fd) prev) = productPrice prev)
   \<and> (product_price fd \<noteq> 0 \<longrightarrow> productPrice (loadFinancialData (Some fd) prev) = product_price fd)
   \<and> (misc_expenses fd = 0 \<longrightarrow> miscExpenses (loadFinancialData (Some fd) prev) = miscExpenses prev)
   \<and> (misc_expenses fd \<noteq> 0 \<longrightarrow> miscExpenses (loadFinancialData (Some fd) prev) = misc_expenses fd)
   \<and> step t canSave s (FinancialDataLoaded (Some fd))
        = Inr (s \<lparr> inputs := loadFinancialData (Some fd) (inputs s) \<rparr>)"
  by (simp add: loadFinancialData_def or_else_def)

theorem stored_zero_keeps_input_witness:
  "loadFinancialData
     (Some \<lparr> current_funds = 0, monthly_revenue = 29990, monthly_expenses = 80000,
             FinancialRow.employees = 8, marketing_spend = 0, product_price = 1999,
             misc_expenses = 0 \<rparr>)
     (initial_inputs None :: unit SimulationInputs)
   = \<lparr> SimulationInputs.employees = 8, marketingSpend = 200000, productPrice = 1999,
       miscExpenses = 150000, currentFunds = 5000000, customParameters = [] \<rparr>"
proof -
  let ?fd = "\<lparr> current_funds = 0, monthly_revenue = 29990, monthly_expenses = 80000,
             FinancialRow.employees = 8, marketing_spend = 0, product_price = 1999,
             misc_expenses = 0 \<rparr>"
  let ?prev = "initial_inputs None :: unit SimulationInputs"
  note t = stored_zero_keeps_input [of ?prev ?fd None False "initial_state None"]
  have "currentFunds (loadFinancialData (Some ?fd) ?prev) = 5000000"
    and "SimulationInputs.employees (loadFinancialData (Some ?fd) ?prev) = 8"
    and "marketingSpend (loadFinancialData (Some ?fd) ?prev) = 200000"
    and "productPrice (loadFinancialData (Some ?fd) ?prev) = 1999"
    and "miscExpenses (loadFinancialData (Some ?fd) ?prev) = 150000"
    and "customParameters (loadFinancialData (Some ?fd) ?prev) = []"
    using t by (simp_all add: initial_inputs_def)
  then show ?thesis
    by (cases "loadFinancialData (Some ?fd) ?prev") simp
qed

end
